theory Spec2Isabelle
  imports Complex_Main
begin

section \<open>Arrays, errors and the image library\<close>

text \<open>
  An image is a numpy array: its shape and its samples in row-major order. Samples are
  rationals, which hold every 8-bit integer sample and every finite floating-point
  sample; rounding of floating-point arithmetic is not modelled, the comparisons that
  guard the code are. Arrays are values: \<open>ndarray.copy()\<close> yields an equal value,
  and no code of the repository writes into an array that a slot or a command holds.
\<close>

datatype error = AttributeError | ValueError | LibraryError | DivideByZero

record ndarray =
  shape :: "nat list"
  items :: "rat list"

definition ndim :: "ndarray \<Rightarrow> nat" where
  "ndim a = length (shape a)"

text \<open>
  The scikit-image functions the processors call. Each is a partial map: \<open>None\<close>
  is the call raising, reported to the caller as \<open>LibraryError\<close>.
  \<open>threshold_multiotsu\<close> is always called with \<open>classes=3\<close> and so returns two
  cut points.
\<close>

record skimage =
  rgb2gray :: "ndarray \<rightharpoonup> ndarray"
  rgb2hsv :: "ndarray \<rightharpoonup> ndarray"
  threshold_otsu :: "ndarray \<rightharpoonup> rat"
  threshold_multiotsu :: "ndarray \<rightharpoonup> rat \<times> rat"
  chan_vese :: "ndarray \<rightharpoonup> ndarray"
  morphological_chan_vese :: "ndarray \<rightharpoonup> ndarray"
  roberts :: "ndarray \<rightharpoonup> ndarray"
  sobel :: "ndarray \<rightharpoonup> ndarray"
  scharr :: "ndarray \<rightharpoonup> ndarray"
  prewitt :: "ndarray \<rightharpoonup> ndarray"

definition call :: "('a \<rightharpoonup> 'b) \<Rightarrow> 'a \<Rightarrow> error + 'b" where
  "call f x = (case f x of None \<Rightarrow> Inl LibraryError | Some y \<Rightarrow> Inr y)"

text \<open>\<open>min()\<close> and \<open>max()\<close> of an array raise ValueError on an empty array.\<close>

definition np_min :: "'a::linorder list \<Rightarrow> error + 'a" where
  "np_min xs = (case xs of [] \<Rightarrow> Inl ValueError | x # ys \<Rightarrow> Inr (fold min ys x))"

definition np_max :: "'a::linorder list \<Rightarrow> error + 'a" where
  "np_max xs = (case xs of [] \<Rightarrow> Inl ValueError | x # ys \<Rightarrow> Inr (fold max ys x))"

text \<open>An integer sample stored into an 8-bit array wraps modulo 256.\<close>

definition wrap_uint8 :: "int \<Rightarrow> rat" where
  "wrap_uint8 n = of_int (n mod 256)"

text \<open>
  \<open>astype(np.uint8)\<close> of a float sample: the sample is truncated towards zero and
  the integer wraps. C leaves the cast of a float outside the 32-bit integer range
  undefined; numpy on x86-64 yields 0 there.
\<close>

definition astype_uint8 :: "rat \<Rightarrow> rat" where
  "astype_uint8 x =
     (let t = (if 0 \<le> x then \<lfloor>x\<rfloor> else \<lceil>x\<rceil>)
      in if - (2 ^ 31) \<le> t \<and> t < 2 ^ 31 then wrap_uint8 t else 0)"

text \<open>
  \<open>(a * 255).astype(np.uint8)\<close>. The product is taken exactly here; the code rounds
  it to a 64-bit float before it truncates, which can put a sample one below the exact
  result.
\<close>

definition scale_uint8 :: "ndarray \<Rightarrow> ndarray" where
  "scale_uint8 a = a\<lparr>items := map (\<lambda>x. astype_uint8 (x * 255)) (items a)\<rparr>"

text \<open>
  \<open>mask.astype(np.uint8) * 255\<close>, a product of 8-bit samples; the library's mask is
  a boolean array, its items 0 or 1.
\<close>

definition mask_uint8 :: "ndarray \<Rightarrow> ndarray" where
  "mask_uint8 m =
     m\<lparr>items := map (\<lambda>b. wrap_uint8 (\<lfloor>astype_uint8 b\<rfloor> * 255)) (items m)\<rparr>"

text \<open>
  numpy's true division of an array by a scalar. The model has no infinities or NaN: a
  zero divisor is reported as \<open>DivideByZero\<close>.
\<close>

definition true_divide :: "rat list \<Rightarrow> rat \<Rightarrow> error + rat list" where
  "true_divide xs d = (if d = 0 then Inl DivideByZero else Inr (map (\<lambda>x. x / d) xs))"

text \<open>numpy's integer floor division: a zero divisor gives 0 (with a warning).\<close>

definition floor_divide :: "nat \<Rightarrow> nat \<Rightarrow> nat" where
  "floor_divide a b = (if b = 0 then 0 else a div b)"

text \<open>
  \<open>np.digitize(x, bins)\<close> for two bins: the number of bins that are \<open>\<le> x\<close> when the
  bins increase, and two minus that number when they decrease.
\<close>

definition digitize :: "rat list \<Rightarrow> rat \<times> rat \<Rightarrow> nat list" where
  "digitize xs bins =
     (let count = (\<lambda>x. length (filter (\<lambda>b. b \<le> x) [fst bins, snd bins]))
      in if fst bins \<le> snd bins then map count xs else map (\<lambda>x. 2 - count x) xs)"

definition clip :: "rat \<Rightarrow> rat \<Rightarrow> rat \<Rightarrow> rat" where
  "clip lo hi x = min hi (max lo x)"

section \<open>processing.py\<close>

text \<open>\<open>gray = color.rgb2gray(image) if image.ndim == 3 else image\<close>\<close>

definition to_gray :: "skimage \<Rightarrow> ndarray \<Rightarrow> error + ndarray" where
  "to_gray lib img = (if ndim img = 3 then call (rgb2gray lib) img else Inr img)"

definition Rgb2GrayProcessor_process :: "skimage \<Rightarrow> ndarray \<Rightarrow> error + ndarray" where
  "Rgb2GrayProcessor_process lib img =
     (case call (rgb2gray lib) img of
        Inl e \<Rightarrow> Inl e
      | Inr g \<Rightarrow> Inr (scale_uint8 g))"

definition Rgb2HsvProcessor_process :: "skimage \<Rightarrow> ndarray \<Rightarrow> error + ndarray" where
  "Rgb2HsvProcessor_process lib img =
     (if ndim img \<noteq> 3 \<or> shape img ! 2 \<noteq> 3 then Inr img
      else case call (rgb2hsv lib) img of
             Inl e \<Rightarrow> Inl e
           | Inr hsv \<Rightarrow> Inr (scale_uint8 hsv))"

text \<open>\<open>(result * (255 // result.max())).astype(np.uint8)\<close>\<close>

definition scale_classes :: "nat list \<Rightarrow> error + rat list" where
  "scale_classes result =
     (case np_max result of
        Inl e \<Rightarrow> Inl e
      | Inr m \<Rightarrow> Inr (map (\<lambda>k. wrap_uint8 (int (k * floor_divide 255 m))) result))"

definition MultiOtsuProcessor_process :: "skimage \<Rightarrow> ndarray \<Rightarrow> error + ndarray" where
  "MultiOtsuProcessor_process lib img =
     (case to_gray lib img of
        Inl e \<Rightarrow> Inl e
      | Inr gray \<Rightarrow>
         (case call (threshold_multiotsu lib) gray of
            Inl e \<Rightarrow> Inl e
          | Inr thresholds \<Rightarrow>
             (case scale_classes (digitize (items gray) thresholds) of
                Inl e \<Rightarrow> Inl e
              | Inr out \<Rightarrow> Inr \<lparr>shape = shape gray, items = out\<rparr>)))"

definition ChanVeseProcessor_process :: "skimage \<Rightarrow> ndarray \<Rightarrow> error + ndarray" where
  "ChanVeseProcessor_process lib img =
     (case to_gray lib img of
        Inl e \<Rightarrow> Inl e
      | Inr gray \<Rightarrow>
         (case call (chan_vese lib) gray of
            Inl e \<Rightarrow> Inl e
          | Inr m \<Rightarrow> Inr (mask_uint8 m)))"

definition MorphSnakesProcessor_process :: "skimage \<Rightarrow> ndarray \<Rightarrow> error + ndarray" where
  "MorphSnakesProcessor_process lib img =
     (case to_gray lib img of
        Inl e \<Rightarrow> Inl e
      | Inr gray \<Rightarrow>
         (case call (morphological_chan_vese lib) gray of
            Inl e \<Rightarrow> Inl e
          | Inr m \<Rightarrow> Inr (mask_uint8 m)))"

subsection \<open>The emphasize filter of the edge detectors\<close>

text \<open>\<open>res = res - res.min()\<close>\<close>

definition shift_min :: "rat list \<Rightarrow> error + rat list" where
  "shift_min res =
     (case np_min res of
        Inl e \<Rightarrow> Inl e
      | Inr lo \<Rightarrow> Inr (map (\<lambda>x. x - lo) res))"

text \<open>\<open>if res.max() > 0: res /= res.max()\<close>\<close>

definition normalize_max :: "rat list \<Rightarrow> error + rat list" where
  "normalize_max res =
     (case np_max res of
        Inl e \<Rightarrow> Inl e
      | Inr hi \<Rightarrow> if hi > 0 then true_divide res hi else Inr res)"

text \<open>\<open>out = (res - thr) / (1 - thr) if (1 - thr) > 0 else res\<close>\<close>

definition rescale_threshold :: "rat \<Rightarrow> rat list \<Rightarrow> error + rat list" where
  "rescale_threshold thr res =
     (if 1 - thr > 0 then true_divide (map (\<lambda>x. x - thr) res) (1 - thr) else Inr res)"

definition edge_emphasize :: "skimage \<Rightarrow> ndarray \<Rightarrow> error + ndarray" where
  "edge_emphasize lib res =
     (case shift_min (items res) of
        Inl e \<Rightarrow> Inl e
      | Inr shifted \<Rightarrow>
         (case normalize_max shifted of
            Inl e \<Rightarrow> Inl e
          | Inr normed \<Rightarrow>
             (case call (threshold_otsu lib) (res\<lparr>items := normed\<rparr>) of
                Inl e \<Rightarrow> Inl e
              | Inr thr \<Rightarrow>
                 (case rescale_threshold thr normed of
                    Inl e \<Rightarrow> Inl e
                  | Inr out \<Rightarrow>
                     Inr (res\<lparr>items := map (\<lambda>x. astype_uint8 (clip 0 1 x * 255)) out\<rparr>)))))"

definition RobertsProcessor_process :: "skimage \<Rightarrow> ndarray \<Rightarrow> error + ndarray" where
  "RobertsProcessor_process lib img =
     (case to_gray lib img of
        Inl e \<Rightarrow> Inl e
      | Inr gray \<Rightarrow>
         (case call (roberts lib) gray of
            Inl e \<Rightarrow> Inl e
          | Inr res \<Rightarrow> edge_emphasize lib res))"

definition SobelProcessor_process :: "skimage \<Rightarrow> ndarray \<Rightarrow> error + ndarray" where
  "SobelProcessor_process lib img =
     (case to_gray lib img of
        Inl e \<Rightarrow> Inl e
      | Inr gray \<Rightarrow>
         (case call (sobel lib) gray of
            Inl e \<Rightarrow> Inl e
          | Inr res \<Rightarrow> edge_emphasize lib res))"

definition ScharrProcessor_process :: "skimage \<Rightarrow> ndarray \<Rightarrow> error + ndarray" where
  "ScharrProcessor_process lib img =
     (case to_gray lib img of
        Inl e \<Rightarrow> Inl e
      | Inr gray \<Rightarrow>
         (case call (scharr lib) gray of
            Inl e \<Rightarrow> Inl e
          | Inr res \<Rightarrow> edge_emphasize lib res))"

definition PrewittProcessor_process :: "skimage \<Rightarrow> ndarray \<Rightarrow> error + ndarray" where
  "PrewittProcessor_process lib img =
     (case to_gray lib img of
        Inl e \<Rightarrow> Inl e
      | Inr gray \<Rightarrow>
         (case call (prewitt lib) gray of
            Inl e \<Rightarrow> Inl e
          | Inr res \<Rightarrow> edge_emphasize lib res))"

section \<open>commands.py and ui.py\<close>

text \<open>
  A command object is its identity (a fresh number per constructed object), its class
  and the snapshot its constructor took: \<open>prev\<close> for the image commands,
  \<open>prev_src\<close> for ClearSourceCommand. Its \<open>ctrl\<close> back-reference is the one
  controller, passed as the state.
\<close>

datatype image_command =
    GrayscaleCommand | HsvCommand | MultiOtsuCommand | ChanVeseCommand | MorphSnakesCommand
  | RobertsCommand | SobelCommand | ScharrCommand | PrewittCommand

datatype command =
    BaseImageCommand nat image_command "ndarray option"
  | ClearSourceCommand nat "ndarray option"
  | ClearOutputCommand nat

text \<open>A QLabel shows nothing (after \<open>clear()\<close>) or the pixmap rendered from an array.\<close>

datatype label = NoPixmap | Pixmap ndarray

record CommandHistory =
  undo_stack :: "command list"
  redo_stack :: "command list"

text \<open>
  The controller's image slots, its two image labels and its history; \<open>allocated\<close>
  counts the command objects constructed so far. The enabled flags of buttons and menu
  actions and \<open>source_path\<close> are left out: no command and no history operation
  reads them.
\<close>

record MainWindowController =
  img_source :: "ndarray option"
  img_output :: "ndarray option"
  lblSourceImage :: label
  lblOutputImage :: label
  history :: CommandHistory
  allocated :: nat

definition init :: MainWindowController where
  "init = \<lparr>img_source = None, img_output = None, lblSourceImage = NoPixmap,
           lblOutputImage = NoPixmap,
           history = \<lparr>undo_stack = [], redo_stack = []\<rparr>, allocated = 0\<rparr>"

datatype label_name = SourceLabel | OutputLabel

definition setPixmap :: "label_name \<Rightarrow> ndarray \<Rightarrow> MainWindowController \<Rightarrow> MainWindowController" where
  "setPixmap l a s =
     (case l of
        SourceLabel \<Rightarrow> s\<lparr>lblSourceImage := Pixmap a\<rparr>
      | OutputLabel \<Rightarrow> s\<lparr>lblOutputImage := Pixmap a\<rparr>)"

text \<open>
  \<open>_show_image(array, label)\<close>: \<open>array.astype\<close> raises AttributeError on None;
  \<open>min()\<close>/\<open>max()\<close> raise ValueError on an empty array; unpacking the shape into
  \<open>h, w, ch\<close> raises ValueError unless the array that is not 2-D is 3-D.
\<close>

definition show_image ::
  "ndarray option \<Rightarrow> label_name \<Rightarrow> MainWindowController \<Rightarrow> MainWindowController \<times> error option" where
  "show_image array l s =
     (case array of
        None \<Rightarrow> (s, Some AttributeError)
      | Some a \<Rightarrow>
          if items a = [] then (s, Some ValueError)
          else if ndim a = 2 then (setPixmap l a s, None)
          else if ndim a = 3 then (setPixmap l a s, None)
          else (s, Some ValueError))"

subsection \<open>Constructors\<close>

definition new_BaseImageCommand ::
  "image_command \<Rightarrow> MainWindowController \<Rightarrow> command \<times> MainWindowController" where
  "new_BaseImageCommand k s =
     (BaseImageCommand (allocated s) k (img_output s), s\<lparr>allocated := Suc (allocated s)\<rparr>)"

definition new_ClearSourceCommand :: "MainWindowController \<Rightarrow> command \<times> MainWindowController" where
  "new_ClearSourceCommand s =
     (ClearSourceCommand (allocated s) (img_source s), s\<lparr>allocated := Suc (allocated s)\<rparr>)"

definition new_ClearOutputCommand :: "MainWindowController \<Rightarrow> command \<times> MainWindowController" where
  "new_ClearOutputCommand s =
     (ClearOutputCommand (allocated s), s\<lparr>allocated := Suc (allocated s)\<rparr>)"

subsection \<open>execute and undo\<close>

fun processor :: "image_command \<Rightarrow> skimage \<Rightarrow> ndarray \<Rightarrow> error + ndarray" where
  "processor GrayscaleCommand = Rgb2GrayProcessor_process"
| "processor HsvCommand = Rgb2HsvProcessor_process"
| "processor MultiOtsuCommand = MultiOtsuProcessor_process"
| "processor ChanVeseCommand = ChanVeseProcessor_process"
| "processor MorphSnakesCommand = MorphSnakesProcessor_process"
| "processor RobertsCommand = RobertsProcessor_process"
| "processor SobelCommand = SobelProcessor_process"
| "processor ScharrCommand = ScharrProcessor_process"
| "processor PrewittCommand = PrewittProcessor_process"

text \<open>
  \<open>proc.process(self.ctrl.img_source)\<close>. With no source image, \<open>image.ndim\<close> raises
  AttributeError; the grayscale processor hands None to the library instead.
\<close>

definition process_source :: "image_command \<Rightarrow> skimage \<Rightarrow> ndarray option \<Rightarrow> error + ndarray" where
  "process_source k lib src =
     (case src of
        None \<Rightarrow> Inl (if k = GrayscaleCommand then LibraryError else AttributeError)
      | Some img \<Rightarrow> processor k lib img)"

fun execute :: "skimage \<Rightarrow> command \<Rightarrow> MainWindowController \<Rightarrow> MainWindowController \<times> error option" where
  "execute lib (BaseImageCommand i k prev) s =
     (case process_source k lib (img_source s) of
        Inl e \<Rightarrow> (s, Some e)
      | Inr out \<Rightarrow> show_image (Some out) OutputLabel (s\<lparr>img_output := Some out\<rparr>))"
| "execute lib (ClearSourceCommand i prev_src) s =
     (s\<lparr>img_source := None, lblSourceImage := NoPixmap\<rparr>, None)"
| "execute lib (ClearOutputCommand i) s =
     (s\<lparr>img_output := None, lblOutputImage := NoPixmap\<rparr>, None)"

fun undo :: "command \<Rightarrow> MainWindowController \<Rightarrow> MainWindowController \<times> error option" where
  "undo (BaseImageCommand i k prev) s =
     show_image prev OutputLabel (s\<lparr>img_output := prev\<rparr>)"
| "undo (ClearSourceCommand i prev_src) s =
     show_image prev_src SourceLabel (s\<lparr>img_source := prev_src\<rparr>)"
| "undo (ClearOutputCommand i) s = (s, None)"

subsection \<open>CommandHistory\<close>

definition CommandHistory_push :: "command \<Rightarrow> MainWindowController \<Rightarrow> MainWindowController" where
  "CommandHistory_push cmd s =
     s\<lparr>history := \<lparr>undo_stack = undo_stack (history s) @ [cmd], redo_stack = []\<rparr>\<rparr>"

definition CommandHistory_undo :: "MainWindowController \<Rightarrow> MainWindowController \<times> error option" where
  "CommandHistory_undo s =
     (if undo_stack (history s) = [] then (s, None)
      else
        let cmd = last (undo_stack (history s));
            popped = s\<lparr>history := (history s)\<lparr>undo_stack := butlast (undo_stack (history s))\<rparr>\<rparr>
        in case undo cmd popped of
             (s', Some e) \<Rightarrow> (s', Some e)
           | (s', None) \<Rightarrow>
               (s'\<lparr>history := (history s')\<lparr>redo_stack := redo_stack (history s') @ [cmd]\<rparr>\<rparr>, None))"

definition CommandHistory_redo ::
  "skimage \<Rightarrow> MainWindowController \<Rightarrow> MainWindowController \<times> error option" where
  "CommandHistory_redo lib s =
     (if redo_stack (history s) = [] then (s, None)
      else
        let cmd = last (redo_stack (history s));
            popped = s\<lparr>history := (history s)\<lparr>redo_stack := butlast (redo_stack (history s))\<rparr>\<rparr>
        in case execute lib cmd popped of
             (s', Some e) \<Rightarrow> (s', Some e)
           | (s', None) \<Rightarrow>
               (s'\<lparr>history := (history s')\<lparr>undo_stack := undo_stack (history s') @ [cmd]\<rparr>\<rparr>, None))"

subsection \<open>MainWindowController\<close>

text \<open>\<open>resizeEvent\<close> renders again the images that are present.\<close>

definition resizeEvent :: "MainWindowController \<Rightarrow> MainWindowController \<times> error option" where
  "resizeEvent s =
     (case (case img_source s of
              None \<Rightarrow> (s, None)
            | Some a \<Rightarrow> show_image (Some a) SourceLabel s) of
        (s1, Some e) \<Rightarrow> (s1, Some e)
      | (s1, None) \<Rightarrow>
          (case img_output s1 of
             None \<Rightarrow> (s1, None)
           | Some b \<Rightarrow> show_image (Some b) OutputLabel s1))"

text \<open>
  \<open>open_source\<close>: \<open>loaded\<close> is what the file dialog and \<open>open_image\<close> yield,
  None when the dialog is cancelled or the file cannot be read. An exception of
  \<open>_show_image\<close> is caught by the method's \<open>try\<close> and shown as an error popup.
\<close>

definition open_source :: "ndarray option \<Rightarrow> MainWindowController \<Rightarrow> MainWindowController" where
  "open_source loaded s =
     (case loaded of
        None \<Rightarrow> s
      | Some img \<Rightarrow> fst (show_image (Some img) SourceLabel (s\<lparr>img_source := Some img\<rparr>)))"

definition clear_source :: "skimage \<Rightarrow> MainWindowController \<Rightarrow> MainWindowController \<times> error option" where
  "clear_source lib s =
     (let (cmd, s1) = new_ClearSourceCommand s;
          s2 = CommandHistory_push cmd s1
      in case execute lib cmd s2 of
           (s3, Some e) \<Rightarrow> (s3, Some e)
         | (s3, None) \<Rightarrow>
             (s3\<lparr>img_output := None, lblOutputImage := NoPixmap,
                 history := \<lparr>undo_stack = [], redo_stack = []\<rparr>\<rparr>, None))"

definition clear_output :: "skimage \<Rightarrow> MainWindowController \<Rightarrow> MainWindowController \<times> error option" where
  "clear_output lib s =
     (let (cmd, s1) = new_ClearOutputCommand s;
          s2 = CommandHistory_push cmd s1
      in case execute lib cmd s2 of
           (s3, Some e) \<Rightarrow> (s3, Some e)
         | (s3, None) \<Rightarrow> (s3\<lparr>history := \<lparr>undo_stack = [], redo_stack = []\<rparr>\<rparr>, None))"

text \<open>
  \<open>_apply(CmdClass)\<close>: the command is pushed before it is executed. The assignment
  after \<open>execute\<close> reads \<open>cmd.ctrl.img_output\<close>, the controller's own slot.
\<close>

definition apply_command ::
  "skimage \<Rightarrow> image_command \<Rightarrow> MainWindowController \<Rightarrow> MainWindowController \<times> error option" where
  "apply_command lib k s =
     (if img_source s = None then (s, None)
      else
        let (cmd, s1) = new_BaseImageCommand k s;
            s2 = CommandHistory_push cmd s1
        in case execute lib cmd s2 of
             (s3, Some e) \<Rightarrow> (s3, Some e)
           | (s3, None) \<Rightarrow> (s3\<lparr>img_output := img_output s3\<rparr>, None))"

definition MainWindowController_undo :: "MainWindowController \<Rightarrow> MainWindowController \<times> error option" where
  "MainWindowController_undo s = CommandHistory_undo s"

definition MainWindowController_redo ::
  "skimage \<Rightarrow> MainWindowController \<Rightarrow> MainWindowController \<times> error option" where
  "MainWindowController_redo lib s = CommandHistory_redo lib s"

section \<open>Notions the properties are stated with\<close>

text \<open>The arrays \<open>_show_image\<close> renders without raising.\<close>

definition displayable :: "ndarray \<Rightarrow> bool" where
  "displayable a = (items a \<noteq> [] \<and> (ndim a = 2 \<or> ndim a = 3))"

text \<open>
  A caller's sequence of calls on the history, where the caller goes on after a call
  that raised.
\<close>

datatype history_call = Push command | Undo | Redo

fun run_call :: "skimage \<Rightarrow> history_call \<Rightarrow> MainWindowController \<Rightarrow> MainWindowController" where
  "run_call lib (Push cmd) s = CommandHistory_push cmd s"
| "run_call lib Undo s = fst (CommandHistory_undo s)"
| "run_call lib Redo s = fst (CommandHistory_redo lib s)"

fun ident :: "command \<Rightarrow> nat" where
  "ident (BaseImageCommand i k prev) = i"
| "ident (ClearSourceCommand i prev_src) = i"
| "ident (ClearOutputCommand i) = i"

definition stacks_disjoint :: "MainWindowController \<Rightarrow> bool" where
  "stacks_disjoint s = (set (undo_stack (history s)) \<inter> set (redo_stack (history s)) = {})"

definition history_inv :: "MainWindowController \<Rightarrow> bool" where
  "history_inv s =
     (distinct (undo_stack (history s) @ redo_stack (history s)) \<and>
      list_all (\<lambda>c. ident c < allocated s) (undo_stack (history s) @ redo_stack (history s)))"

text \<open>
  The states of a window: every slot method of the controller may run in any order, and
  the window stays in the state an uncaught exception of a slot leaves behind.
\<close>

inductive reachable :: "skimage \<Rightarrow> MainWindowController \<Rightarrow> bool" for lib :: skimage where
  r_init: "reachable lib init"
| r_open_source: "reachable lib s \<Longrightarrow> reachable lib (open_source loaded s)"
| r_apply: "reachable lib s \<Longrightarrow> reachable lib (fst (apply_command lib k s))"
| r_undo: "reachable lib s \<Longrightarrow> reachable lib (fst (MainWindowController_undo s))"
| r_redo: "reachable lib s \<Longrightarrow> reachable lib (fst (MainWindowController_redo lib s))"
| r_clear_source: "reachable lib s \<Longrightarrow> reachable lib (fst (clear_source lib s))"
| r_clear_output: "reachable lib s \<Longrightarrow> reachable lib (fst (clear_output lib s))"
| r_resize: "reachable lib s \<Longrightarrow> reachable lib (fst (resizeEvent s))"

subsection \<open>Concrete inputs\<close>

text \<open>A library every call of which raises, for runs that must not depend on it.\<close>

definition raising_skimage :: skimage where
  "raising_skimage =
     \<lparr>rgb2gray = Map.empty, rgb2hsv = Map.empty, threshold_otsu = Map.empty,
      threshold_multiotsu = Map.empty, chan_vese = Map.empty,
      morphological_chan_vese = Map.empty, roberts = Map.empty, sobel = Map.empty,
      scharr = Map.empty, prewitt = Map.empty\<rparr>"

definition gray_1x2 :: ndarray where
  "gray_1x2 = \<lparr>shape = [1, 2], items = [0, 255]\<rparr>"

definition gray_1x3 :: ndarray where
  "gray_1x3 = \<lparr>shape = [1, 3], items = [0, 100, 200]\<rparr>"

definition loaded_with_output :: MainWindowController where
  "loaded_with_output =
     init\<lparr>img_source := Some gray_1x2, img_output := Some gray_1x3,
          lblSourceImage := Pixmap gray_1x2, lblOutputImage := Pixmap gray_1x3\<rparr>"

definition rgb_1x1 :: ndarray where
  "rgb_1x1 = \<lparr>shape = [1, 1, 3], items = [10, 20, 30]\<rparr>"

definition rgba_1x1 :: ndarray where
  "rgba_1x1 = \<lparr>shape = [1, 1, 4], items = [10, 20, 30, 255]\<rparr>"

text \<open>A grayscale image has been opened.\<close>

definition gray_loaded :: MainWindowController where
  "gray_loaded = open_source (Some gray_1x2) init"

text \<open>A grayscale image is opened and the HSV conversion is applied twice.\<close>

definition after_two_applies :: MainWindowController where
  "after_two_applies =
     fst (apply_command raising_skimage HsvCommand
       (fst (apply_command raising_skimage HsvCommand (open_source (Some gray_1x2) init))))"

text \<open>
  A library that answers one multi-Otsu call: for the three samples 0, 100, 200 the cut
  points of scikit-image are the two lower values, 0 and 100.
\<close>

definition otsu_0_100 :: skimage where
  "otsu_0_100 = raising_skimage\<lparr>threshold_multiotsu := [gray_1x3 \<mapsto> (0, 100)]\<rparr>"



section \<open>Auxiliary facts\<close>

lemma show_image_history [simp]: "history (fst (show_image x l s)) = history s"
  by (simp add: show_image_def setPixmap_def split: option.split label_name.split)

lemma show_image_allocated [simp]: "allocated (fst (show_image x l s)) = allocated s"
  by (simp add: show_image_def setPixmap_def split: option.split label_name.split)

lemma execute_history [simp]: "history (fst (execute lib cmd s)) = history s"
  by (cases cmd) (simp_all split: sum.split)

lemma execute_allocated [simp]: "allocated (fst (execute lib cmd s)) = allocated s"
  by (cases cmd) (simp_all split: sum.split)

lemma undo_history [simp]: "history (fst (undo cmd s)) = history s"
  by (cases cmd) simp_all

lemma undo_allocated [simp]: "allocated (fst (undo cmd s)) = allocated s"
  by (cases cmd) simp_all

lemma undo_keeps:
  "undo cmd s = (s', e) \<Longrightarrow> history s' = history s \<and> allocated s' = allocated s"
  using undo_history [of cmd s] undo_allocated [of cmd s] by simp

lemma execute_keeps:
  "execute lib cmd s = (s', e) \<Longrightarrow> history s' = history s \<and> allocated s' = allocated s"
  using execute_history [of lib cmd s] execute_allocated [of lib cmd s] by simp

lemma show_image_displayable:
  "displayable a \<Longrightarrow> show_image (Some a) l s = (setPixmap l a s, None)"
  by (auto simp: show_image_def displayable_def)

lemma displayable_gray_1x2 [simp]: "displayable gray_1x2"
  by (simp add: displayable_def gray_1x2_def ndim_def)

lemma ndim_gray_1x2 [simp]: "ndim gray_1x2 = 2"
  by (simp add: gray_1x2_def ndim_def)

lemma after_two_applies_eq:
  "after_two_applies =
     \<lparr>img_source = Some gray_1x2, img_output = Some gray_1x2, lblSourceImage = Pixmap gray_1x2,
      lblOutputImage = Pixmap gray_1x2,
      history = \<lparr>undo_stack = [BaseImageCommand 0 HsvCommand None,
                                BaseImageCommand 1 HsvCommand (Some gray_1x2)],
                 redo_stack = []\<rparr>,
      allocated = 2\<rparr>"
  by (simp add: after_two_applies_def apply_command_def open_source_def init_def
      show_image_displayable setPixmap_def new_BaseImageCommand_def CommandHistory_push_def
      process_source_def Rgb2HsvProcessor_process_def)

lemma CommandHistory_undo_stacks:
  "undo_stack (history (fst (CommandHistory_undo s))) = butlast (undo_stack (history s))"
  "set (redo_stack (history (fst (CommandHistory_undo s))))
     \<subseteq> set (redo_stack (history s)) \<union> set (undo_stack (history s))"
  "allocated (fst (CommandHistory_undo s)) = allocated s"
  by (auto simp: CommandHistory_undo_def Let_def split: prod.split option.split
      dest!: undo_keeps)

lemma CommandHistory_redo_stacks:
  "redo_stack (history (fst (CommandHistory_redo lib s))) = butlast (redo_stack (history s))"
  "set (undo_stack (history (fst (CommandHistory_redo lib s))))
     \<subseteq> set (undo_stack (history s)) \<union> set (redo_stack (history s))"
  "allocated (fst (CommandHistory_redo lib s)) = allocated s"
  by (auto simp: CommandHistory_redo_def Let_def split: prod.split option.split
      dest!: execute_keeps)

lemma run_call_absent:
  assumes "c \<notin> set (undo_stack (history s))" "c \<notin> set (redo_stack (history s))"
    "hc \<noteq> Push c"
  shows "c \<notin> set (undo_stack (history (run_call lib hc s))) \<and>
         c \<notin> set (redo_stack (history (run_call lib hc s)))"
proof (cases hc)
  case (Push cmd)
  with assms show ?thesis by (simp add: CommandHistory_push_def)
next
  case Undo
  with assms show ?thesis
    using CommandHistory_undo_stacks(2) [of s]
    by (auto simp: CommandHistory_undo_stacks(1) dest: in_set_butlastD)
next
  case Redo
  with assms show ?thesis
    using CommandHistory_redo_stacks(2) [of lib s]
    by (auto simp: CommandHistory_redo_stacks(1) dest: in_set_butlastD)
qed

lemma run_calls_absent:
  "c \<notin> set (undo_stack (history s)) \<Longrightarrow> c \<notin> set (redo_stack (history s)) \<Longrightarrow>
   Push c \<notin> set calls \<Longrightarrow>
   c \<notin> set (undo_stack (history (fold (run_call lib) calls s))) \<and>
   c \<notin> set (redo_stack (history (fold (run_call lib) calls s)))"
proof (induction calls arbitrary: s)
  case Nil
  then show ?case by simp
next
  case (Cons hc calls)
  from Cons.prems have "hc \<noteq> Push c" by auto
  with Cons.prems have "c \<notin> set (undo_stack (history (run_call lib hc s))) \<and>
      c \<notin> set (redo_stack (history (run_call lib hc s)))"
    by (intro run_call_absent) auto
  with Cons.IH [of "run_call lib hc s"] Cons.prems show ?case by simp
qed

lemma show_image_None: "show_image None l s = (s, Some AttributeError)"
  by (simp add: show_image_def)

lemma gray_loaded_eq:
  "gray_loaded = init\<lparr>img_source := Some gray_1x2, lblSourceImage := Pixmap gray_1x2\<rparr>"
  by (simp add: gray_loaded_def open_source_def show_image_displayable setPixmap_def)

lemma apply_raises:
  "apply_command raising_skimage GrayscaleCommand gray_loaded =
     (gray_loaded\<lparr>history := \<lparr>undo_stack = [BaseImageCommand 0 GrayscaleCommand None],
                          redo_stack = []\<rparr>, allocated := 1\<rparr>,
      Some LibraryError)"
  by (simp add: gray_loaded_eq init_def apply_command_def new_BaseImageCommand_def
      CommandHistory_push_def process_source_def Rgb2GrayProcessor_process_def call_def
      raising_skimage_def)

lemma undo_after_two_applies:
  "CommandHistory_undo after_two_applies =
     (after_two_applies\<lparr>history := \<lparr>undo_stack = [BaseImageCommand 0 HsvCommand None],
          redo_stack = [BaseImageCommand 1 HsvCommand (Some gray_1x2)]\<rparr>\<rparr>, None)"
  by (simp add: after_two_applies_eq CommandHistory_undo_def show_image_displayable setPixmap_def)

lemma redo_raises:
  "CommandHistory_redo raising_skimage
     (open_source (Some rgb_1x1) (fst (CommandHistory_undo after_two_applies))) =
     (after_two_applies\<lparr>img_source := Some rgb_1x1, lblSourceImage := Pixmap rgb_1x1,
        history := \<lparr>undo_stack = [BaseImageCommand 0 HsvCommand None], redo_stack = []\<rparr>\<rparr>,
      Some LibraryError)"
  unfolding undo_after_two_applies fst_conv
  by (simp add: after_two_applies_eq open_source_def show_image_def
      setPixmap_def rgb_1x1_def ndim_def CommandHistory_redo_def process_source_def
      Rgb2HsvProcessor_process_def call_def raising_skimage_def)

lemma history_inv_init: "history_inv init"
  by (simp add: history_inv_def init_def)

lemma history_inv_open_source: "history_inv s \<Longrightarrow> history_inv (open_source loaded s)"
  by (cases loaded) (simp_all add: history_inv_def open_source_def)

lemma history_inv_undo: "history_inv s \<Longrightarrow> history_inv (fst (CommandHistory_undo s))"
proof (cases "undo_stack (history s)" rule: rev_cases)
  case Nil
  then show "history_inv s \<Longrightarrow> ?thesis" by (simp add: CommandHistory_undo_def)
next
  case (snoc cs c)
  assume inv: "history_inv s"
  obtain u e where u: "undo c (s\<lparr>history := (history s)\<lparr>undo_stack := cs\<rparr>\<rparr>) = (u, e)"
    by (cases "undo c (s\<lparr>history := (history s)\<lparr>undo_stack := cs\<rparr>\<rparr>)")
  from undo_keeps [OF u] have k: "history u = (history s)\<lparr>undo_stack := cs\<rparr>"
    "allocated u = allocated s" by simp_all
  show ?thesis using inv snoc u k
    by (cases e) (auto simp: CommandHistory_undo_def history_inv_def)
qed

lemma history_inv_redo: "history_inv s \<Longrightarrow> history_inv (fst (CommandHistory_redo lib s))"
proof (cases "redo_stack (history s)" rule: rev_cases)
  case Nil
  then show "history_inv s \<Longrightarrow> ?thesis" by (simp add: CommandHistory_redo_def)
next
  case (snoc cs c)
  assume inv: "history_inv s"
  obtain x e where x: "execute lib c (s\<lparr>history := (history s)\<lparr>redo_stack := cs\<rparr>\<rparr>) = (x, e)"
    by (cases "execute lib c (s\<lparr>history := (history s)\<lparr>redo_stack := cs\<rparr>\<rparr>)")
  from execute_keeps [OF x] have k: "history x = (history s)\<lparr>redo_stack := cs\<rparr>"
    "allocated x = allocated s" by simp_all
  show ?thesis using inv snoc x k
    by (cases e) (auto simp: CommandHistory_redo_def history_inv_def)
qed

lemma history_inv_push:
  assumes "history_inv s" "ident cmd = allocated s"
  shows "history_inv (CommandHistory_push cmd (s\<lparr>allocated := Suc (allocated s)\<rparr>))"
proof -
  have "cmd \<notin> set (undo_stack (history s))"
  proof
    assume "cmd \<in> set (undo_stack (history s))"
    with assms(1) have "ident cmd < allocated s"
      by (simp add: history_inv_def list_all_iff)
    with assms(2) show False by simp
  qed
  with assms show ?thesis
    by (auto simp: history_inv_def CommandHistory_push_def list_all_iff less_Suc_eq)
qed

lemma history_inv_apply: "history_inv s \<Longrightarrow> history_inv (fst (apply_command lib k s))"
proof (cases "img_source s = None")
  case True
  then show "history_inv s \<Longrightarrow> ?thesis" by (simp add: apply_command_def)
next
  case False
  then obtain src_img where src: "img_source s = Some src_img" by auto
  assume inv: "history_inv s"
  let ?cmd = "BaseImageCommand (allocated s) k (img_output s)"
  let ?s2 = "CommandHistory_push ?cmd (s\<lparr>allocated := Suc (allocated s)\<rparr>)"
  have inv2: "history_inv ?s2" using inv by (intro history_inv_push) simp_all
  obtain x e where x: "execute lib ?cmd ?s2 = (x, e)" by (cases "execute lib ?cmd ?s2")
  from execute_keeps [OF x] inv2 have ix: "history_inv x" by (simp add: history_inv_def)
  have "apply_command lib k s =
      (case execute lib ?cmd ?s2 of
         (s3, Some e) \<Rightarrow> (s3, Some e)
       | (s3, None) \<Rightarrow> (s3, None))"
    using src by (simp add: apply_command_def new_BaseImageCommand_def del: execute.simps)
  then show ?thesis using x ix
    by (cases e) (simp_all add: history_inv_def del: execute.simps)
qed

lemma history_inv_clear:
  "history_inv (fst (clear_source lib s))" "history_inv (fst (clear_output lib s))"
  by (simp_all add: clear_source_def clear_output_def new_ClearSourceCommand_def
      new_ClearOutputCommand_def history_inv_def)

lemma history_inv_resize: "history_inv s \<Longrightarrow> history_inv (fst (resizeEvent s))"
proof -
  have "history (fst (resizeEvent s)) = history s \<and> allocated (fst (resizeEvent s)) = allocated s"
    by (auto simp: resizeEvent_def show_image_def setPixmap_def
        split: option.split prod.split if_splits)
  then show "history_inv s \<Longrightarrow> ?thesis" by (simp add: history_inv_def)
qed

lemma reachable_history_inv: "reachable lib s \<Longrightarrow> history_inv s"
  by (induction rule: reachable.induct)
    (simp_all add: history_inv_init history_inv_open_source history_inv_apply history_inv_undo
      history_inv_redo history_inv_clear history_inv_resize MainWindowController_undo_def
      MainWindowController_redo_def)

lemma history_inv_disjoint: "history_inv s \<Longrightarrow> stacks_disjoint s"
  by (auto simp: history_inv_def stacks_disjoint_def)

lemma fold_max_Max: "fold max ys x = Max (set (x # ys))"
  by (simp only: Max.set_eq_fold)


lemma np_max_Max: "xs \<noteq> [] \<Longrightarrow> np_max xs = Inr (Max (set xs))"
  by (cases xs) (simp_all add: np_max_def fold_max_Max)


lemma np_max_Inr: "np_max xs = Inr m \<Longrightarrow> xs \<noteq> [] \<and> m = Max (set xs)"
  by (cases xs) (auto simp: np_max_def fold_max_Max)




lemma digitize_classes: "list_all (\<lambda>k. k \<le> 2) (digitize xs t)"
  by (simp add: digitize_def list_all_iff Let_def)

lemma digitize_length [simp]: "length (digitize xs t) = length xs"
  by (simp add: digitize_def Let_def)

lemma wrap_uint8_of_nat: "n < 256 \<Longrightarrow> wrap_uint8 (int n) = of_nat n"
  by (simp add: wrap_uint8_def)

lemma scale_factor: "m \<le> 2 \<Longrightarrow>
  m * floor_divide 255 m = (if m = 1 then 255 else if m = 2 then 254 else 0)"
  by (cases "m = 0"; cases "m = 1"; cases "m = 2") (simp_all add: floor_divide_def)

lemma scale_classes_eq:
  assumes "classes \<noteq> []" "list_all (\<lambda>k. k \<le> 2) classes"
  shows "scale_classes classes =
           Inr (map (\<lambda>k. of_nat (k * floor_divide 255 (Max (set classes)))) classes)"
proof -
  let ?m = "Max (set classes)"
  have m: "?m \<in> set classes" using assms(1) by simp
  with assms(2) have m2: "?m \<le> 2" by (simp add: list_all_iff)
  have bound: "k * floor_divide 255 ?m < 256" if "k \<in> set classes" for k
  proof -
    from that have "k \<le> ?m" by simp
    then have "k * floor_divide 255 ?m \<le> ?m * floor_divide 255 ?m" by simp
    also have "\<dots> \<le> 255" using scale_factor [OF m2] by simp
    finally show ?thesis by simp
  qed
  have "wrap_uint8 (int (k * floor_divide 255 ?m)) = of_nat (k * floor_divide 255 ?m)"
    if "k \<in> set classes" for k
    using bound [OF that] by (rule wrap_uint8_of_nat)
  then show ?thesis
    using assms(1) by (simp add: scale_classes_def np_max_Max del: of_nat_mult cong: map_cong)
qed

lemma ndim_gray_1x3 [simp]: "ndim gray_1x3 = 2"
  by (simp add: gray_1x3_def ndim_def)

lemma digitize_gray_1x3: "digitize (items gray_1x3) (0, 100) = [1, 2, 2]"
  by (simp add: digitize_def gray_1x3_def)












section \<open>The command history\<close>

text \<open>
  C1. \<open>CommandHistory.push(command)\<close> appends the command to the undo stack and empties
  the redo stack. So after \<open>push(a); undo(); push(b)\<close>, whatever \<open>a.undo()\<close> did, the
  redo stack is empty, \<open>redo()\<close> changes nothing and raises nothing, and \<open>a\<close> is not
  on the redo stack. It stays off both stacks for good: if \<open>a\<close> is another object than
  \<open>b\<close>, was not on the undo stack before and is not pushed again, no later sequence
  of push, undo and redo calls brings it back to either stack.
\<close>

theorem push_invalidates_redo:
  "undo_stack (history (CommandHistory_push a s)) = undo_stack (history s) @ [a] \<and>
   redo_stack (history (CommandHistory_push a s)) = [] \<and>
   (case CommandHistory_undo (CommandHistory_push a s) of (s1, e1) \<Rightarrow>
      case CommandHistory_push b s1 of s2 \<Rightarrow>
        redo_stack (history s2) = [] \<and> a \<notin> set (redo_stack (history s2)) \<and>
        CommandHistory_redo lib s2 = (s2, None) \<and>
        undo_stack (history s2) = undo_stack (history s) @ [b] \<and>
        (a \<noteq> b \<and> a \<notin> set (undo_stack (history s)) \<and> Push a \<notin> set calls \<longrightarrow>
           a \<notin> set (undo_stack (history (fold (run_call lib) calls s2))) \<and>
           a \<notin> set (redo_stack (history (fold (run_call lib) calls s2)))))"
proof -
  obtain s1 e1 where u: "CommandHistory_undo (CommandHistory_push a s) = (s1, e1)"
    by (cases "CommandHistory_undo (CommandHistory_push a s)")
  define s2 where "s2 = CommandHistory_push b s1"
  have s1: "undo_stack (history s1) = undo_stack (history s)"
    using CommandHistory_undo_stacks(1) [of "CommandHistory_push a s"] u
    by (simp add: CommandHistory_push_def)
  have r2: "redo_stack (history s2) = []"
    and u2: "undo_stack (history s2) = undo_stack (history s) @ [b]"
    by (simp_all add: s2_def CommandHistory_push_def s1)
  have noop: "CommandHistory_redo lib s2 = (s2, None)"
    by (simp add: CommandHistory_redo_def r2)
  have perm: "a \<notin> set (undo_stack (history (fold (run_call lib) calls s2))) \<and>
      a \<notin> set (redo_stack (history (fold (run_call lib) calls s2)))"
    if "a \<noteq> b" "a \<notin> set (undo_stack (history s))" "Push a \<notin> set calls"
    using that by (intro run_calls_absent) (simp_all add: r2 u2)
  show ?thesis
    using u r2 u2 noop perm by (simp add: CommandHistory_push_def s2_def)
qed

theorem push_invalidates_redo_witness:
  "BaseImageCommand 2 HsvCommand (Some gray_1x2) \<noteq> BaseImageCommand 3 HsvCommand (Some gray_1x2) \<and>
   BaseImageCommand 2 HsvCommand (Some gray_1x2) \<notin> set (undo_stack (history after_two_applies)) \<and>
   Push (BaseImageCommand 2 HsvCommand (Some gray_1x2)) \<notin> set [Undo, Redo, Redo] \<and>
   (case CommandHistory_undo
           (CommandHistory_push (BaseImageCommand 2 HsvCommand (Some gray_1x2)) after_two_applies)
    of (s1, e1) \<Rightarrow>
      e1 = None \<and> redo_stack (history s1) = [BaseImageCommand 2 HsvCommand (Some gray_1x2)] \<and>
      (case CommandHistory_push (BaseImageCommand 3 HsvCommand (Some gray_1x2)) s1 of s2 \<Rightarrow>
         redo_stack (history s2) = [] \<and>
         undo_stack (history s2) =
           [BaseImageCommand 0 HsvCommand None, BaseImageCommand 1 HsvCommand (Some gray_1x2),
            BaseImageCommand 3 HsvCommand (Some gray_1x2)] \<and>
         CommandHistory_redo raising_skimage s2 = (s2, None) \<and>
         BaseImageCommand 2 HsvCommand (Some gray_1x2)
           \<notin> set (redo_stack (history (fold (run_call raising_skimage) [Undo, Redo, Redo] s2))) \<and>
         BaseImageCommand 2 HsvCommand (Some gray_1x2)
           \<notin> set (undo_stack (history (fold (run_call raising_skimage) [Undo, Redo, Redo] s2)))))"
proof -
  let ?a = "BaseImageCommand 2 HsvCommand (Some gray_1x2)"
  let ?b = "BaseImageCommand 3 HsvCommand (Some gray_1x2)"
  have u: "CommandHistory_undo (CommandHistory_push ?a after_two_applies) =
      (after_two_applies\<lparr>history := \<lparr>undo_stack = undo_stack (history after_two_applies),
          redo_stack = [?a]\<rparr>\<rparr>, None)"
    by (simp add: after_two_applies_eq CommandHistory_push_def CommandHistory_undo_def
        show_image_displayable setPixmap_def)
  have h: "?a \<noteq> ?b" "?a \<notin> set (undo_stack (history after_two_applies))"
    "Push ?a \<notin> set [Undo, Redo, Redo]"
    by (simp_all add: after_two_applies_eq)
  have st: "undo_stack (history after_two_applies) =
      [BaseImageCommand 0 HsvCommand None, BaseImageCommand 1 HsvCommand (Some gray_1x2)]"
    by (simp add: after_two_applies_eq)
  show ?thesis
    using h push_invalidates_redo [where a = ?a and b = ?b and s = after_two_applies
        and lib = raising_skimage and calls = "[Undo, Redo, Redo]"]
    unfolding u by (simp add: st)
qed

text \<open>
  C4. \<open>CommandHistory.undo()\<close> with an empty undo stack changes nothing and raises
  nothing. Otherwise it pops the tail command and invokes its \<open>undo()\<close>: the stack
  has lost its tail, the controller's slots and labels are as the command's \<open>undo()\<close>
  leaves them, and the command is appended to the redo stack once that call has
  returned. An exception of the command's \<open>undo()\<close> leaves the method at that point:
  it is the method's exception, and the redo stack is as before. \<open>redo()\<close> is the
  mirror image, with the redo stack, the command's \<open>execute()\<close> and the undo stack.
\<close>

theorem history_undo_redo:
  "(undo_stack (history s) = [] \<longrightarrow> CommandHistory_undo s = (s, None)) \<and>
   (redo_stack (history s) = [] \<longrightarrow> CommandHistory_redo lib s = (s, None)) \<and>
   (undo_stack (history s) = cs @ [cmd] \<longrightarrow>
      (case undo cmd (s\<lparr>history := (history s)\<lparr>undo_stack := cs\<rparr>\<rparr>) of (u, eu) \<Rightarrow>
       case CommandHistory_undo s of (s', e) \<Rightarrow>
         e = eu \<and> undo_stack (history s') = cs \<and>
         img_source s' = img_source u \<and> img_output s' = img_output u \<and>
         lblSourceImage s' = lblSourceImage u \<and> lblOutputImage s' = lblOutputImage u \<and>
         redo_stack (history s') =
           (if eu = None then redo_stack (history s) @ [cmd] else redo_stack (history s)))) \<and>
   (redo_stack (history s) = cs @ [cmd] \<longrightarrow>
      (case execute lib cmd (s\<lparr>history := (history s)\<lparr>redo_stack := cs\<rparr>\<rparr>) of (x, ex) \<Rightarrow>
       case CommandHistory_redo lib s of (s', e) \<Rightarrow>
         e = ex \<and> redo_stack (history s') = cs \<and>
         img_source s' = img_source x \<and> img_output s' = img_output x \<and>
         lblSourceImage s' = lblSourceImage x \<and> lblOutputImage s' = lblOutputImage x \<and>
         undo_stack (history s') =
           (if ex = None then undo_stack (history s) @ [cmd] else undo_stack (history s))))"
proof (intro conjI impI)
  show "CommandHistory_undo s = (s, None)" if "undo_stack (history s) = []"
    using that by (simp add: CommandHistory_undo_def)
  show "CommandHistory_redo lib s = (s, None)" if "redo_stack (history s) = []"
    using that by (simp add: CommandHistory_redo_def)
next
  assume st: "undo_stack (history s) = cs @ [cmd]"
  obtain u eu where u: "undo cmd (s\<lparr>history := (history s)\<lparr>undo_stack := cs\<rparr>\<rparr>) = (u, eu)"
    by (cases "undo cmd (s\<lparr>history := (history s)\<lparr>undo_stack := cs\<rparr>\<rparr>)")
  from undo_keeps [OF u] have h: "history u = (history s)\<lparr>undo_stack := cs\<rparr>" by simp
  show "case undo cmd (s\<lparr>history := (history s)\<lparr>undo_stack := cs\<rparr>\<rparr>) of (u, eu) \<Rightarrow>
       case CommandHistory_undo s of (s', e) \<Rightarrow>
         e = eu \<and> undo_stack (history s') = cs \<and>
         img_source s' = img_source u \<and> img_output s' = img_output u \<and>
         lblSourceImage s' = lblSourceImage u \<and> lblOutputImage s' = lblOutputImage u \<and>
         redo_stack (history s') =
           (if eu = None then redo_stack (history s) @ [cmd] else redo_stack (history s))"
    using st u h by (cases eu) (simp_all add: CommandHistory_undo_def)
next
  assume st: "redo_stack (history s) = cs @ [cmd]"
  obtain x ex where x: "execute lib cmd (s\<lparr>history := (history s)\<lparr>redo_stack := cs\<rparr>\<rparr>) = (x, ex)"
    by (cases "execute lib cmd (s\<lparr>history := (history s)\<lparr>redo_stack := cs\<rparr>\<rparr>)")
  from execute_keeps [OF x] have h: "history x = (history s)\<lparr>redo_stack := cs\<rparr>" by simp
  show "case execute lib cmd (s\<lparr>history := (history s)\<lparr>redo_stack := cs\<rparr>\<rparr>) of (x, ex) \<Rightarrow>
       case CommandHistory_redo lib s of (s', e) \<Rightarrow>
         e = ex \<and> redo_stack (history s') = cs \<and>
         img_source s' = img_source x \<and> img_output s' = img_output x \<and>
         lblSourceImage s' = lblSourceImage x \<and> lblOutputImage s' = lblOutputImage x \<and>
         undo_stack (history s') =
           (if ex = None then undo_stack (history s) @ [cmd] else undo_stack (history s))"
    using st x h by (cases ex) (simp_all add: CommandHistory_redo_def)
qed

theorem history_undo_redo_witness:
  "undo_stack (history init) = [] \<and> CommandHistory_undo init = (init, None) \<and>
   redo_stack (history init) = [] \<and> CommandHistory_redo raising_skimage init = (init, None) \<and>
   undo_stack (history after_two_applies)
     = [BaseImageCommand 0 HsvCommand None] @ [BaseImageCommand 1 HsvCommand (Some gray_1x2)] \<and>
   snd (CommandHistory_undo after_two_applies) = None \<and>
   undo_stack (history (fst (CommandHistory_undo after_two_applies)))
     = [BaseImageCommand 0 HsvCommand None] \<and>
   redo_stack (history (fst (CommandHistory_undo after_two_applies)))
     = [] @ [BaseImageCommand 1 HsvCommand (Some gray_1x2)] \<and>
   snd (CommandHistory_redo raising_skimage (fst (CommandHistory_undo after_two_applies))) = None \<and>
   undo_stack (history (fst (CommandHistory_redo raising_skimage
       (fst (CommandHistory_undo after_two_applies)))))
     = [BaseImageCommand 0 HsvCommand None, BaseImageCommand 1 HsvCommand (Some gray_1x2)] \<and>
   redo_stack (history (fst (CommandHistory_redo raising_skimage
       (fst (CommandHistory_undo after_two_applies))))) = []"
proof -
  let ?c0 = "BaseImageCommand 0 HsvCommand None"
  let ?c1 = "BaseImageCommand 1 HsvCommand (Some gray_1x2)"
  let ?u = "fst (CommandHistory_undo after_two_applies)"
  have e1: "undo_stack (history init) = []" and e2: "redo_stack (history init) = []"
    by (simp_all add: init_def)
  have a: "CommandHistory_undo init = (init, None)"
    and b: "CommandHistory_redo raising_skimage init = (init, None)"
    using history_undo_redo [where s = init and lib = raising_skimage] e1 e2 by simp_all
  have st: "undo_stack (history after_two_applies) = [?c0] @ [?c1]"
    by (simp add: after_two_applies_eq)
  have r0: "redo_stack (history after_two_applies) = []"
    by (simp add: after_two_applies_eq)
  have cu: "snd (undo ?c1 (after_two_applies\<lparr>history :=
      (history after_two_applies)\<lparr>undo_stack := [?c0]\<rparr>\<rparr>)) = None"
    by (simp add: show_image_displayable)
  have u: "snd (CommandHistory_undo after_two_applies) = None \<and>
      undo_stack (history ?u) = [?c0] \<and> redo_stack (history ?u) = [] @ [?c1]"
    using history_undo_redo [where s = after_two_applies and lib = raising_skimage
        and cs = "[?c0]" and cmd = ?c1] st r0 cu
    by (simp split: prod.splits)
  have src: "img_source ?u = Some gray_1x2"
    using history_undo_redo [where s = after_two_applies and lib = raising_skimage
        and cs = "[?c0]" and cmd = ?c1] st
    by (simp add: show_image_displayable setPixmap_def after_two_applies_eq split: prod.splits)
  have cx: "snd (execute raising_skimage ?c1 (?u\<lparr>history := (history ?u)\<lparr>redo_stack := []\<rparr>\<rparr>))
      = None"
    using src by (simp add: process_source_def Rgb2HsvProcessor_process_def show_image_displayable)
  have r: "snd (CommandHistory_redo raising_skimage ?u) = None \<and>
      undo_stack (history (fst (CommandHistory_redo raising_skimage ?u))) = [?c0, ?c1] \<and>
      redo_stack (history (fst (CommandHistory_redo raising_skimage ?u))) = []"
    using history_undo_redo [where s = ?u and lib = raising_skimage
        and cs = "[]" and cmd = ?c1] u cx
    by (simp split: prod.splits)
  show ?thesis using e1 e2 a b st u r by simp
qed

section \<open>The clear commands\<close>

text \<open>
  C7. Clear-output is irreversible. \<open>ClearOutputCommand.execute()\<close> empties the output
  slot and clears the output label, and raises nothing. Its \<open>undo()\<close> does nothing:
  after \<open>execute(); undo()\<close> the controller is exactly as \<open>execute()\<close> left it, the
  output slot is empty, and the output present before the clear is not restored.
\<close>

theorem clear_output_irreversible:
  "case new_ClearOutputCommand s of (cmd, s1) \<Rightarrow>
     case execute lib cmd s1 of (s2, e2) \<Rightarrow>
       case undo cmd s2 of (s3, e3) \<Rightarrow>
         e2 = None \<and> img_output s2 = None \<and> lblOutputImage s2 = NoPixmap \<and>
         e3 = None \<and> s3 = s2 \<and> img_output s3 = None"
  by (simp add: new_ClearOutputCommand_def)

theorem clear_output_irreversible_witness:
  "img_output loaded_with_output = Some gray_1x3 \<and>
   (case new_ClearOutputCommand loaded_with_output of (cmd, s1) \<Rightarrow>
     case execute raising_skimage cmd s1 of (s2, e2) \<Rightarrow>
       case undo cmd s2 of (s3, e3) \<Rightarrow> e2 = None \<and> e3 = None \<and> img_output s3 = None)"
  using clear_output_irreversible [where s = loaded_with_output and lib = raising_skimage]
  by (simp add: new_ClearOutputCommand_def loaded_with_output_def)

text \<open>
  C8. Clear-source is reversible. For any controller state, the command's constructor
  caches the source slot; \<open>execute()\<close> empties the source slot and clears the source
  label, and raises nothing; \<open>execute(); undo()\<close> puts the cached source back into
  the source slot, and leaves the output slot and the history as they were. Where a
  source image was present (one the display can render), \<open>undo()\<close> raises nothing
  and the source label shows that image again.
\<close>

theorem clear_source_reversible:
  "case new_ClearSourceCommand s of (cmd, s1) \<Rightarrow>
     case execute lib cmd s1 of (s2, e2) \<Rightarrow>
       case undo cmd s2 of (s3, e3) \<Rightarrow>
         e2 = None \<and> img_source s2 = None \<and> lblSourceImage s2 = NoPixmap \<and>
         img_source s3 = img_source s \<and> img_output s3 = img_output s \<and>
         history s3 = history s \<and>
         (\<forall>a. img_source s = Some a \<and> displayable a \<longrightarrow>
              e3 = None \<and> lblSourceImage s3 = Pixmap a)"
  by (auto simp: new_ClearSourceCommand_def show_image_def setPixmap_def displayable_def
      split: option.split)

theorem clear_source_reversible_witness:
  "img_source loaded_with_output = Some gray_1x2 \<and> displayable gray_1x2 \<and>
   (case new_ClearSourceCommand loaded_with_output of (cmd, s1) \<Rightarrow>
     case execute raising_skimage cmd s1 of (s2, e2) \<Rightarrow>
       case undo cmd s2 of (s3, e3) \<Rightarrow>
         img_source s2 = None \<and> img_source s3 = Some gray_1x2 \<and> e3 = None \<and>
         lblSourceImage s3 = Pixmap gray_1x2)"
  using clear_source_reversible [where s = loaded_with_output and lib = raising_skimage]
  by (simp add: new_ClearSourceCommand_def loaded_with_output_def show_image_displayable
      setPixmap_def)

text \<open>
  C10. When the controller's \<open>clear_source\<close> or \<open>clear_output\<close> has run (neither
  raises), the undo stack and the redo stack are both empty: the clear command that was
  pushed is discarded with all earlier history, and \<open>undo()\<close> and \<open>redo()\<close> of the
  history do nothing afterwards. \<open>clear_source\<close> empties the output slot as well as
  the source slot; \<open>clear_output\<close> empties the output slot and keeps the source.
\<close>

theorem clear_discards_history:
  "(case clear_source lib s of (s', e) \<Rightarrow>
      e = None \<and> undo_stack (history s') = [] \<and> redo_stack (history s') = [] \<and>
      img_source s' = None \<and> img_output s' = None \<and>
      CommandHistory_undo s' = (s', None) \<and> CommandHistory_redo lib s' = (s', None)) \<and>
   (case clear_output lib s of (s', e) \<Rightarrow>
      e = None \<and> undo_stack (history s') = [] \<and> redo_stack (history s') = [] \<and>
      img_output s' = None \<and> img_source s' = img_source s \<and>
      CommandHistory_undo s' = (s', None) \<and> CommandHistory_redo lib s' = (s', None))"
  by (simp add: clear_source_def clear_output_def new_ClearSourceCommand_def
      new_ClearOutputCommand_def CommandHistory_push_def CommandHistory_undo_def
      CommandHistory_redo_def)

theorem clear_discards_history_witness:
  "undo_stack (history after_two_applies) \<noteq> [] \<and>
   undo_stack (history (fst (clear_source raising_skimage after_two_applies))) = [] \<and>
   redo_stack (history (fst (clear_source raising_skimage after_two_applies))) = [] \<and>
   undo_stack (history (fst (clear_output raising_skimage after_two_applies))) = [] \<and>
   redo_stack (history (fst (clear_output raising_skimage after_two_applies))) = []"
  using clear_discards_history [where s = after_two_applies and lib = raising_skimage]
  by (simp add: after_two_applies_eq split: prod.splits)

section \<open>One stack per command\<close>

text \<open>
  C3. In every state a window can reach, each command object is on at most one of the two
  stacks, and on that stack once. The states reached include those an exception leaves
  behind: a command whose \<open>execute()\<close> raises in \<open>_apply\<close> has been pushed and
  stays on the undo stack alone; one whose \<open>execute()\<close> raises in \<open>redo()\<close> has
  been popped from the redo stack and is on neither. From a reachable state the stacks
  are again disjoint after \<open>_apply\<close>, after the history's \<open>undo()\<close> and
  \<open>redo()\<close>, whether or not they raise, and after a \<open>push\<close>.
\<close>

theorem command_on_one_stack:
  "reachable lib s \<Longrightarrow>
     stacks_disjoint s \<and>
     distinct (undo_stack (history s) @ redo_stack (history s)) \<and>
     stacks_disjoint (fst (apply_command lib k s)) \<and>
     stacks_disjoint (fst (CommandHistory_undo s)) \<and>
     stacks_disjoint (fst (CommandHistory_redo lib s)) \<and>
     stacks_disjoint (CommandHistory_push cmd s)"
proof -
  assume r: "reachable lib s"
  then have inv: "history_inv s" by (rule reachable_history_inv)
  have push: "stacks_disjoint (CommandHistory_push cmd s)"
    by (simp add: stacks_disjoint_def CommandHistory_push_def)
  have d: "distinct (undo_stack (history s) @ redo_stack (history s))"
    using inv by (simp add: history_inv_def)
  show ?thesis
    using inv push d
    by (simp add: history_inv_disjoint history_inv_apply history_inv_undo history_inv_redo)
qed

theorem command_on_one_stack_witness:
  "reachable raising_skimage gray_loaded \<and>
   snd (apply_command raising_skimage GrayscaleCommand gray_loaded) = Some LibraryError \<and>
   undo_stack (history (fst (apply_command raising_skimage GrayscaleCommand gray_loaded)))
     = [BaseImageCommand 0 GrayscaleCommand None] \<and>
   stacks_disjoint (fst (apply_command raising_skimage GrayscaleCommand gray_loaded)) \<and>
   reachable raising_skimage
     (open_source (Some rgb_1x1) (fst (MainWindowController_undo after_two_applies))) \<and>
   snd (CommandHistory_redo raising_skimage
     (open_source (Some rgb_1x1) (fst (MainWindowController_undo after_two_applies))))
     = Some LibraryError \<and>
   stacks_disjoint (fst (CommandHistory_redo raising_skimage
     (open_source (Some rgb_1x1) (fst (MainWindowController_undo after_two_applies)))))"
proof -
  have r1: "reachable raising_skimage gray_loaded"
    unfolding gray_loaded_def by (intro reachable.intros)
  have r2: "reachable raising_skimage
      (open_source (Some rgb_1x1) (fst (MainWindowController_undo after_two_applies)))"
    unfolding after_two_applies_def by (intro reachable.intros)
  show ?thesis
    using r1 r2 command_on_one_stack [OF r1, of GrayscaleCommand]
      command_on_one_stack [OF r2, of GrayscaleCommand]
    by (simp add: apply_raises redo_raises MainWindowController_undo_def)
qed

text \<open>
  The controller constructs a new command object for every push. The history alone does
  not keep the stacks disjoint for a caller that pushes one object twice: after an undo
  that object is on both stacks.
\<close>

lemma undo_needs_distinct_instances:
  "stacks_disjoint (CommandHistory_push c (CommandHistory_push c init)) \<and>
   \<not> stacks_disjoint (fst (CommandHistory_undo
        (CommandHistory_push (ClearOutputCommand 0) (CommandHistory_push (ClearOutputCommand 0) init))))"
  by (simp add: stacks_disjoint_def CommandHistory_push_def CommandHistory_undo_def init_def
      Let_def)

section \<open>Undo of an image command\<close>

text \<open>
  The constructor of an image command copies the output slot. Where an output was
  present (one the display can render), \<open>undo()\<close> puts the copy back and shows it,
  whatever \<open>execute()\<close> did in between. Where no output was present, \<open>undo()\<close>
  empties the output slot and then raises: \<open>_show_image\<close> is called with None.
\<close>

lemma image_command_undo_present:
  assumes "img_output s = Some prior" "displayable prior"
    "new_BaseImageCommand k s = (cmd, s1)"
  shows "undo cmd s2 = (s2\<lparr>img_output := Some prior, lblOutputImage := Pixmap prior\<rparr>, None)"
  using assms by (auto simp: new_BaseImageCommand_def show_image_displayable setPixmap_def)

lemma image_command_undo_empty:
  assumes "img_output s = None" "new_BaseImageCommand k s = (cmd, s1)"
  shows "undo cmd s2 = (s2\<lparr>img_output := None\<rparr>, Some AttributeError)"
  using assms by (auto simp: new_BaseImageCommand_def show_image_def)

text \<open>
  C2. The round trip \<open>c.execute(); c.undo()\<close> of an image command, at the input where
  it fails: a grayscale image is open and there is no output yet. The HSV command's
  \<open>execute()\<close> writes the output slot and shows it. Its \<open>undo()\<close> empties the output
  slot again but raises AttributeError, and the output label still shows the undone
  result. Through the controller, the same exception leaves \<open>CommandHistory.undo()\<close>
  after the command was popped: the command is on neither stack, and a redo does nothing.
\<close>

theorem undo_to_empty_output_raises:
  "img_output gray_loaded = None \<and>
   (case new_BaseImageCommand HsvCommand gray_loaded of (cmd, s1) \<Rightarrow>
      case execute lib cmd s1 of (s2, e2) \<Rightarrow>
        case undo cmd s2 of (s3, e3) \<Rightarrow>
          e2 = None \<and> img_output s2 = Some gray_1x2 \<and> lblOutputImage s2 = Pixmap gray_1x2 \<and>
          e3 = Some AttributeError \<and> img_output s3 = None \<and>
          lblOutputImage s3 = Pixmap gray_1x2) \<and>
   (case apply_command lib HsvCommand gray_loaded of (s1, e1) \<Rightarrow>
      case MainWindowController_undo s1 of (s2, e2) \<Rightarrow>
        e1 = None \<and> undo_stack (history s1) = [BaseImageCommand 0 HsvCommand None] \<and>
        e2 = Some AttributeError \<and>
        undo_stack (history s2) = [] \<and> redo_stack (history s2) = [] \<and>
        MainWindowController_redo lib s2 = (s2, None))"
  by (simp add: gray_loaded_eq init_def new_BaseImageCommand_def process_source_def
      Rgb2HsvProcessor_process_def show_image_displayable setPixmap_def show_image_None
      apply_command_def CommandHistory_push_def MainWindowController_undo_def
      CommandHistory_undo_def MainWindowController_redo_def CommandHistory_redo_def)

section \<open>The processors\<close>

text \<open>
  C6. For an input that is not a 3-channel image (its number of dimensions is not 3, or its
  third dimension is not 3), the HSV processor returns the input itself, without calling
  the library and without an error.
\<close>

theorem hsv_identity_on_non_rgb:
  "ndim img \<noteq> 3 \<or> shape img ! 2 \<noteq> 3 \<Longrightarrow> Rgb2HsvProcessor_process lib img = Inr img"
  by (simp add: Rgb2HsvProcessor_process_def)

theorem hsv_identity_on_non_rgb_witness:
  "ndim gray_1x2 \<noteq> 3 \<and> Rgb2HsvProcessor_process raising_skimage gray_1x2 = Inr gray_1x2 \<and>
   ndim rgba_1x1 = 3 \<and> shape rgba_1x1 ! 2 \<noteq> 3 \<and>
   Rgb2HsvProcessor_process raising_skimage rgba_1x1 = Inr rgba_1x1"
proof -
  have a: "ndim gray_1x2 \<noteq> 3" by simp
  have b: "ndim rgba_1x1 = 3" "shape rgba_1x1 ! 2 \<noteq> 3" by (simp_all add: rgba_1x1_def ndim_def)
  from a have a': "ndim gray_1x2 \<noteq> 3 \<or> shape gray_1x2 ! 2 \<noteq> 3" by simp
  from b have b': "ndim rgba_1x1 \<noteq> 3 \<or> shape rgba_1x1 ! 2 \<noteq> 3" by simp
  show ?thesis
    using a b hsv_identity_on_non_rgb [OF a', of raising_skimage]
      hsv_identity_on_non_rgb [OF b', of raising_skimage]
    by simp
qed

text \<open>
  What the multi-Otsu processor computes. When the grayscale conversion and the library's
  two cut points are there and the image is not empty, the processor returns: every
  pixel gets one of the class indices 0, 1, 2, and every class index \<open>k\<close> becomes the
  sample \<open>k * (255 // m)\<close>, where \<open>m\<close> is the largest class index present and
  \<open>//\<close> is floor division. The largest class index so becomes 255 when it is 1, 254
  when it is 2, and 0 when it is 0.
\<close>

lemma multiotsu_scaling:
  assumes "to_gray lib img = Inr gray" "threshold_multiotsu lib gray = Some t"
    "items gray \<noteq> []"
  shows "\<exists>m. np_max (digitize (items gray) t) = Inr m \<and> m \<le> 2 \<and>
     m \<in> set (digitize (items gray) t) \<and>
     list_all (\<lambda>k. k \<le> m) (digitize (items gray) t) \<and>
     MultiOtsuProcessor_process lib img =
       Inr \<lparr>shape = shape gray,
            items = map (\<lambda>k. of_nat (k * floor_divide 255 m)) (digitize (items gray) t)\<rparr> \<and>
     m * floor_divide 255 m = (if m = 1 then 255 else if m = 2 then 254 else 0)"
proof -
  let ?classes = "digitize (items gray) t"
  let ?m = "Max (set ?classes)"
  have ne: "?classes \<noteq> []" using assms(3) by (metis digitize_length length_0_conv)
  have c2: "list_all (\<lambda>k. k \<le> 2) ?classes" by (rule digitize_classes)
  have m: "?m \<in> set ?classes" using ne by simp
  with c2 have m2: "?m \<le> 2" by (simp add: list_all_iff)
  have le: "list_all (\<lambda>k. k \<le> ?m) ?classes" by (simp add: list_all_iff)
  have p: "MultiOtsuProcessor_process lib img =
       Inr \<lparr>shape = shape gray, items = map (\<lambda>k. of_nat (k * floor_divide 255 ?m)) ?classes\<rparr>"
    using assms(1,2) by (simp add: MultiOtsuProcessor_process_def call_def scale_classes_eq [OF ne c2])
  show ?thesis
    using np_max_Max [OF ne] m2 m le p scale_factor [OF m2] by blast
qed

lemma multiotsu_scaling_example:
  "to_gray otsu_0_100 gray_1x3 = Inr gray_1x3 \<and>
   threshold_multiotsu otsu_0_100 gray_1x3 = Some (0, 100) \<and> items gray_1x3 \<noteq> [] \<and>
   np_max (digitize (items gray_1x3) (0, 100)) = Inr 2 \<and>
   MultiOtsuProcessor_process otsu_0_100 gray_1x3 =
     Inr \<lparr>shape = shape gray_1x3,
          items = map (\<lambda>k. of_nat (k * floor_divide 255 2)) (digitize (items gray_1x3) (0, 100))\<rparr> \<and>
   2 * floor_divide 255 2 = 254"
proof -
  have a: "to_gray otsu_0_100 gray_1x3 = Inr gray_1x3" by (simp add: to_gray_def)
  have b: "threshold_multiotsu otsu_0_100 gray_1x3 = Some (0, 100)"
    by (simp add: otsu_0_100_def)
  have c: "items gray_1x3 \<noteq> []" by (simp add: gray_1x3_def)
  have d: "np_max (digitize (items gray_1x3) (0, 100)) = Inr 2"
    by (simp add: digitize_gray_1x3 np_max_def)
  from multiotsu_scaling [OF a b c] d a b c show ?thesis
    by (auto simp: floor_divide_def)
qed

text \<open>
  C5. The multi-Otsu processor at an input where the largest class does not become 255: a
  1x3 grayscale image with the samples 0, 100, 200, for which the library's cut points
  are 0 and 100. The pixels get the class indices 1, 2, 2; the factor is
  \<open>255 // 2 = 127\<close>; the result is 127, 254, 254. The largest class index present, 2,
  becomes 254, and no sample of the result is 255.
\<close>

theorem multiotsu_max_class_not_255:
  "threshold_multiotsu otsu_0_100 gray_1x3 = Some (0, 100) \<and>
   digitize (items gray_1x3) (0, 100) = [1, 2, 2] \<and>
   np_max (digitize (items gray_1x3) (0, 100)) = Inr 2 \<and>
   MultiOtsuProcessor_process otsu_0_100 gray_1x3 =
     Inr \<lparr>shape = [1, 3], items = [127, 254, 254]\<rparr> \<and>
   255 \<notin> set (items \<lparr>shape = [1 :: nat, 3], items = [127, 254, 254 :: rat]\<rparr>)"
proof -
  have m: "np_max [1, 2, 2 :: nat] = Inr 2" by (simp add: np_max_def)
  have f: "floor_divide 255 2 = 127" by (simp add: floor_divide_def)
  have sc: "scale_classes [1, 2, 2] = Inr [127, 254, 254]"
    by (simp only: scale_classes_def m sum.case) (simp add: f wrap_uint8_def)
  have "MultiOtsuProcessor_process otsu_0_100 gray_1x3 =
      Inr \<lparr>shape = shape gray_1x3, items = [127, 254, 254]\<rparr>"
    by (simp add: MultiOtsuProcessor_process_def to_gray_def call_def otsu_0_100_def
        digitize_gray_1x3 sc del: One_nat_def)
  then show ?thesis
    by (simp add: digitize_gray_1x3 m otsu_0_100_def del: One_nat_def) (simp add: gray_1x3_def)
qed



end
